theory Spec2Isabelle
  imports Main
begin

section \<open>Device features and the capability table\<close>

text \<open>
  The \<open>Features\<close> message of the device, restricted to the fields the three functions of
  \<open>deviceFeaturesUtils\<close> read. The field \<open>capabilities\<close> is declared as a list of strings
  but holds the numeric codes of the protobuf enumeration when it reaches
  \<open>parseCapabilities\<close>, and the symbolic names when it reaches
  \<open>getUnavailableCapabilities\<close>; the record is therefore polymorphic in the type of this
  field: a list of codes or of names, \<open>None\<close> when the field is absent (undefined or null),
  or any value of \<open>js_capabilities\<close> below. An absent field of the other types is \<open>None\<close>.
\<close>

record 'c Features =
  firmware_present :: "bool option"
  major_version :: nat
  minor_version :: nat
  patch_version :: nat
  capabilities :: 'c
  revision :: "string option"

definition CAPABILITIES :: "string list" where
  "CAPABILITIES =
    [''Capability_Bitcoin'',
     ''Capability_Bitcoin_like'',
     ''Capability_Binance'',
     ''Capability_Cardano'',
     ''Capability_Crypto'',
     ''Capability_EOS'',
     ''Capability_Ethereum'',
     ''Capability_Lisk'',
     ''Capability_Monero'',
     ''Capability_NEM'',
     ''Capability_Ripple'',
     ''Capability_Stellar'',
     ''Capability_Tezos'',
     ''Capability_U2F'',
     ''Capability_Shamir'',
     ''Capability_ShamirGroups'',
     ''Capability_PassphraseEntry'']"

definition DEFAULT_CAPABILITIES_T1 :: "int list" where
  "DEFAULT_CAPABILITIES_T1 = [1, 2, 5, 7, 10, 12, 14]"

definition DEFAULT_CAPABILITIES_TT :: "int list" where
  "DEFAULT_CAPABILITIES_TT = [1, 2, 3, 4, 5, 6, 7, 9, 10, 11, 12, 13, 14]"

text \<open>
  Reading an array at an index: JavaScript yields \<open>undefined\<close> (here \<open>None\<close>) for every
  index that is negative or not below the length, and never raises.
\<close>

definition js_index :: "'a list \<Rightarrow> int \<Rightarrow> 'a option" where
  "js_index xs i = (if 0 \<le> i \<and> i < int (length xs) then Some (xs ! nat i) else None)"

definition flatMap :: "('a \<Rightarrow> 'b list) \<Rightarrow> 'a list \<Rightarrow> 'b list" where
  "flatMap f xs = concat (map f xs)"

text \<open>
  The local function \<open>filter\<close> of \<open>parseCapabilities\<close>:
  \<open>c => (CAPABILITIES[c - 1] ? [CAPABILITIES[c - 1]] : [])\<close>. A string is truthy when it
  is not empty.
\<close>

definition capability_filter :: "int \<Rightarrow> string list" where
  "capability_filter c =
     (case js_index CAPABILITIES (c - 1) of
        None \<Rightarrow> []
      | Some s \<Rightarrow> (if s \<noteq> [] then [s] else []))"

text \<open>
  \<open>parseCapabilities\<close> on the values that the declared type of the field admits: an
  array of codes, or nothing.
\<close>

definition parseCapabilities :: "int list option Features option \<Rightarrow> string list" where
  "parseCapabilities features =
     (case features of
        None \<Rightarrow> []
      | Some f \<Rightarrow>
          if firmware_present f = Some False then []
          else
            let fallback =
              (if major_version f = 1
               then flatMap capability_filter DEFAULT_CAPABILITIES_T1
               else flatMap capability_filter DEFAULT_CAPABILITIES_TT)
            in (case capabilities f of
                  None \<Rightarrow> fallback
                | Some cs \<Rightarrow> if length cs = 0 then fallback else flatMap capability_filter cs))"

text \<open>
  \<open>parseCapabilities\<close> on whatever the field holds at run time. The value of
  \<open>features.capabilities\<close> is \<open>undefined\<close> (or \<open>null\<close>), a number, a string, or an array of
  integer codes. A number is falsy when it is 0, a string when it is empty; an array is
  truthy. A string and an array have a \<open>length\<close>; of a number it is \<open>undefined\<close>. Only
  an array has the method \<open>flatMap\<close>: the call on any other value raises a \<open>TypeError\<close>.
\<close>

datatype js_error = TypeError

datatype js_capabilities = JUndefined | JNumber int | JString string | JArray "int list"

definition js_truthy :: "js_capabilities \<Rightarrow> bool" where
  "js_truthy v =
     (case v of
        JUndefined \<Rightarrow> False
      | JNumber n \<Rightarrow> n \<noteq> 0
      | JString s \<Rightarrow> s \<noteq> []
      | JArray cs \<Rightarrow> True)"

definition js_length :: "js_capabilities \<Rightarrow> nat option" where
  "js_length v =
     (case v of
        JString s \<Rightarrow> Some (length s)
      | JArray cs \<Rightarrow> Some (length cs)
      | _ \<Rightarrow> None)"

definition js_flatMap :: "(int \<Rightarrow> string list) \<Rightarrow> js_capabilities \<Rightarrow> js_error + string list" where
  "js_flatMap f v =
     (case v of
        JArray cs \<Rightarrow> Inr (flatMap f cs)
      | _ \<Rightarrow> Inl TypeError)"

definition parseCapabilities_js :: "js_capabilities Features option \<Rightarrow> js_error + string list" where
  "parseCapabilities_js features =
     (case features of
        None \<Rightarrow> Inr []
      | Some f \<Rightarrow>
          if firmware_present f = Some False then Inr []
          else if \<not> js_truthy (capabilities f) \<or>
                  (case js_length (capabilities f) of None \<Rightarrow> True | Some n \<Rightarrow> n = 0)
          then Inr (if major_version f = 1
                    then flatMap capability_filter DEFAULT_CAPABILITIES_T1
                    else flatMap capability_filter DEFAULT_CAPABILITIES_TT)
          else js_flatMap capability_filter (capabilities f))"

text \<open>The value that a field of the declared type is at run time.\<close>

definition typed_capabilities :: "int list option \<Rightarrow> js_capabilities" where
  "typed_capabilities c = (case c of None \<Rightarrow> JUndefined | Some cs \<Rightarrow> JArray cs)"

section \<open>Strings of numbers, lower case\<close>

text \<open>
  The decimal rendering of a non-negative integer, as a template literal and
  \<open>JSON.stringify\<close> produce it for the integers the program handles (version numbers,
  path components: unsigned 32-bit values).
\<close>

definition digit_char :: "nat \<Rightarrow> char" where
  "digit_char d = char_of (48 + d)"

function show_nat :: "nat \<Rightarrow> string" where
  "show_nat n = (if n < 10 then [digit_char n] else show_nat (n div 10) @ [digit_char (n mod 10)])"
  by pat_completeness auto
termination
  by (relation "measure id") auto

declare show_nat.simps [simp del]

text \<open>The decimal digits, and the number that a string of decimal digits stands for.\<close>

definition is_digit :: "char \<Rightarrow> bool" where
  "is_digit c = (48 \<le> (of_char c :: nat) \<and> (of_char c :: nat) \<le> 57)"

definition read_nat :: "string \<Rightarrow> nat" where
  "read_nat s = foldl (\<lambda>a c. 10 * a + ((of_char c :: nat) - 48)) 0 s"

text \<open>
  A string of the model is the JavaScript string in UTF-8, so that a string of ASCII
  characters is the same in both. \<open>String.prototype.toLowerCase\<close> is a function of the
  library of the language on such strings; the functions below take it as the parameter
  \<open>lc\<close>, so that what is proved of them holds for every function on strings.
  \<open>ascii_toLowerCase\<close> is what it does on a string of ASCII characters: the letters A to Z
  become a to z. It serves the concrete cases, whose shortcuts are ASCII.
\<close>

type_synonym lower_case = "string \<Rightarrow> string"

definition lower_char :: "char \<Rightarrow> char" where
  "lower_char c =
     (let n = (of_char c :: nat) in if 65 \<le> n \<and> n \<le> 90 then char_of (n + 32) else c)"

definition ascii_toLowerCase :: lower_case where
  "ascii_toLowerCase s = map lower_char s"

section \<open>Objects and maps with insertion order\<close>

text \<open>
  A \<open>Map\<close> keeps its entries in the order of first insertion, and \<open>set\<close> on an existing
  key replaces the value where the key stands: an association list, written by
  \<open>assoc_set\<close>.
\<close>

fun assoc_set :: "'k \<Rightarrow> 'v \<Rightarrow> ('k \<times> 'v) list \<Rightarrow> ('k \<times> 'v) list" where
  "assoc_set k v [] = [(k, v)]"
| "assoc_set k v (p # ps) = (if fst p = k then (k, v) # ps else p # assoc_set k v ps)"

text \<open>
  The assignment \<open>list[k] = v\<close> of a string \<open>v\<close> to the report, a plain object made by
  \<open>{}\<close>. Under the key \<open>__proto__\<close> the assignment runs the setter of
  \<open>Object.prototype\<close>, which ignores a value that is neither an object nor \<open>null\<close>: the
  report stays as it is. Every other key becomes a property of the report itself, or gets
  the new value where it stands. The report is the association list of its own
  properties, read by \<open>map_of\<close>; the order of the list is the order of first assignment
  (an object lists the keys that look like array indices before the others: the order is
  not used below).
\<close>

definition obj_set :: "string \<Rightarrow> 'v \<Rightarrow> (string \<times> 'v) list \<Rightarrow> (string \<times> 'v) list" where
  "obj_set k v list = (if k = ''__proto__'' then list else assoc_set k v list)"

text \<open>
  \<open>Array.prototype.filter\<close> with a callback that also writes to a variable of the
  enclosing function: the callback takes the state and returns the decision and the new
  state; the elements are visited from left to right.
\<close>

fun filter_st :: "('a \<Rightarrow> 's \<Rightarrow> bool \<times> 's) \<Rightarrow> 'a list \<Rightarrow> 's \<Rightarrow> 'a list \<times> 's" where
  "filter_st f [] st = ([], st)"
| "filter_st f (x # xs) st =
     (let (keep, st1) = f x st;
          (ys, st2) = filter_st f xs st1
      in (if keep then x # ys else ys, st2))"

section \<open>The compatibility report\<close>

text \<open>
  The four reason tags of \<open>UnavailableCapabilities\<close>: \<open>'no-support'\<close>, \<open>'no-capability'\<close>,
  \<open>'update-required'\<close> and \<open>'trezor-connect-outdated'\<close>.
\<close>

datatype reason = NoSupport | NoCapability | UpdateRequired | TrezorConnectOutdated

type_synonym UnavailableCapabilities = "(string \<times> reason) list"

text \<open>
  A value of the \<open>support\<close> object of a coin: a version string, or something that is not
  a string (the catalog holds \<open>false\<close> for a model that does not support the coin).
\<close>

datatype support_value = SString string | SBool bool

record CoinInfo =
  coin_type :: string
  name :: string
  shortcut :: string
  support :: "(string \<times> support_value) list option"

record SupportEntry =
  s_capabilities :: "string list option"
  s_min :: "string list option"
  s_max :: "string list option"

text \<open>
  \<open>versionCompare\<close> is imported from \<open>versionUtils\<close>; the functions below take it as the
  parameter \<open>vc\<close>, so that what is proved of them holds for every comparison: a version
  string and the firmware triple give a number.
\<close>

type_synonym version_compare = "string \<Rightarrow> nat list \<Rightarrow> int"

definition support_version :: "string \<Rightarrow> CoinInfo \<Rightarrow> string option" where
  "support_version key info =
     (case support info of
        None \<Rightarrow> None
      | Some sp \<Rightarrow>
          (case map_of sp key of
             Some (SString v) \<Rightarrow> Some v
           | _ \<Rightarrow> None))"

text \<open>Stage 1, the callback of \<open>coins.filter\<close>: it writes \<open>'no-support'\<close> and drops the coin.\<close>

definition supported_cb :: "lower_case \<Rightarrow> string \<Rightarrow> CoinInfo \<Rightarrow> UnavailableCapabilities \<Rightarrow> bool \<times> UnavailableCapabilities" where
  "supported_cb lc key info list =
     (if support_version key info = None
      then (False, obj_set (lc (shortcut info)) NoSupport list)
      else (True, list))"

text \<open>Stage 2, the callback of \<open>supported.filter\<close>: true when the capability is missing.\<close>

definition unavailable_cb :: "string list \<Rightarrow> CoinInfo \<Rightarrow> bool" where
  "unavailable_cb caps info =
     (if coin_type info = ''bitcoin'' then
        (if name info = ''Bitcoin'' \<or> name info = ''Testnet''
         then ''Capability_Bitcoin'' \<notin> set caps
         else ''Capability_Bitcoin_like'' \<notin> set caps)
      else if coin_type info = ''ethereum'' then ''Capability_Ethereum'' \<notin> set caps
      else if coin_type info = ''nem'' then ''Capability_NEM'' \<notin> set caps
      else if shortcut info = ''BNB'' then ''Capability_Binance'' \<notin> set caps
      else if shortcut info = ''XRP'' \<or> shortcut info = ''tXRP''
        then ''Capability_Ripple'' \<notin> set caps
      else (''Capability_'' @ name info) \<notin> set caps)"

text \<open>
  Stage 3, the callback of the last \<open>forEach\<close> over the coins; the state is the report
  and the array \<open>unavailable\<close>, to which the coin is pushed. Every coin that reaches this
  callback passed stage 1, so its minimum version is a string; the other branch of the
  case is never taken.
\<close>

definition range_cb :: "version_compare \<Rightarrow> lower_case \<Rightarrow> string \<Rightarrow> nat list \<Rightarrow> CoinInfo \<Rightarrow>
    UnavailableCapabilities \<times> CoinInfo list \<Rightarrow> UnavailableCapabilities \<times> CoinInfo list" where
  "range_cb vc lc key fw info st =
     (case support_version key info of
        None \<Rightarrow> st
      | Some v \<Rightarrow>
          if vc v fw > 0
          then (obj_set (lc (shortcut info)) UpdateRequired (fst st), snd st @ [info])
          else st)"

text \<open>
  Stages 1 to 3 of \<open>getUnavailableCapabilities\<close>, for a device whose \<open>capabilities\<close> are
  \<open>caps\<close>: the report and the array \<open>unavailable\<close> as they stand before stage 4.
  \<open>unavailable.includes(info)\<close> compares object identities; two catalog entries with equal
  fields get the same answer from the callbacks of stages 1 and 2, so membership by
  equality of the fields selects the same coins.
\<close>

definition coin_stages :: "version_compare \<Rightarrow> lower_case \<Rightarrow> string \<Rightarrow> nat list \<Rightarrow> string list \<Rightarrow> CoinInfo list \<Rightarrow>
    UnavailableCapabilities \<times> CoinInfo list" where
  "coin_stages vc lc key fw caps coins =
     (let (supported, list1) = filter_st (supported_cb lc key) coins [];
          unavailable = filter (unavailable_cb caps) supported;
          list2 = fold (\<lambda>info. obj_set (lc (shortcut info)) NoCapability) unavailable list1
      in fold (range_cb vc lc key fw)
           (filter (\<lambda>info. info \<notin> set unavailable) supported)
           (list2, unavailable))"

text \<open>Stage 4, one entry of \<open>support\<close>: the block of the minimum, then the block of the maximum.\<close>

definition version_bound :: "string list option \<Rightarrow> nat list \<Rightarrow> string option" where
  "version_bound arr fw =
     (case arr of None \<Rightarrow> None | Some a \<Rightarrow> js_index a (int (fw ! 0) - 1))"

definition min_block :: "version_compare \<Rightarrow> nat list \<Rightarrow> string option \<Rightarrow> string list \<Rightarrow>
    UnavailableCapabilities \<Rightarrow> UnavailableCapabilities" where
  "min_block vc fw mn caps list =
     (case mn of
        None \<Rightarrow> list
      | Some m \<Rightarrow>
          if m \<noteq> [] \<and> (m = ''0'' \<or> vc m fw > 0)
          then (let v = (if m = ''0'' then NoSupport else UpdateRequired)
                in fold (\<lambda>c. obj_set c v) caps list)
          else list)"

definition max_block :: "version_compare \<Rightarrow> nat list \<Rightarrow> string option \<Rightarrow> string list \<Rightarrow>
    UnavailableCapabilities \<Rightarrow> UnavailableCapabilities" where
  "max_block vc fw mx caps list =
     (case mx of
        None \<Rightarrow> list
      | Some m \<Rightarrow>
          if m \<noteq> [] \<and> vc m fw < 0
          then fold (\<lambda>c. obj_set c TrezorConnectOutdated) caps list
          else list)"

definition support_cb :: "version_compare \<Rightarrow> nat list \<Rightarrow> SupportEntry \<Rightarrow>
    UnavailableCapabilities \<Rightarrow> UnavailableCapabilities" where
  "support_cb vc fw s list =
     (case s_capabilities s of
        None \<Rightarrow> list
      | Some caps \<Rightarrow>
          max_block vc fw (version_bound (s_max s) fw) caps
            (min_block vc fw (version_bound (s_min s) fw) caps list))"

definition getUnavailableCapabilities :: "version_compare \<Rightarrow> lower_case \<Rightarrow>
    string list option Features \<Rightarrow> CoinInfo list \<Rightarrow>
    SupportEntry list \<Rightarrow> UnavailableCapabilities" where
  "getUnavailableCapabilities vc lc features coins support_table =
     (case capabilities features of
        None \<Rightarrow> []
      | Some caps \<Rightarrow>
          let fw = [major_version features, minor_version features, patch_version features];
              key = ''trezor'' @ show_nat (major_version features)
          in fold (support_cb vc fw) support_table (fst (coin_stages vc lc key fw caps coins)))"

section \<open>The comparison of versions\<close>

text \<open>
  Modelled from the spec: the parts of \<open>versionCompare\<close> of \<open>versionUtils\<close>, a module
  that is imported and whose code is not among the files verified here. \<open>split_dots\<close>
  cuts a version string at its dots, \<open>segment_value\<close> is the numeric value of a segment
  (a segment that is not a decimal numeral is read as 0; the spec says nothing about it),
  and \<open>compare_segments\<close> compares segment by segment from the left, a missing trailing
  segment counting as 0.
\<close>

fun split_dots :: "string \<Rightarrow> string list" where
  "split_dots [] = [[]]"
| "split_dots (c # cs) =
     (if c = CHR ''.'' then [] # split_dots cs
      else (case split_dots cs of [] \<Rightarrow> [[c]] | seg # segs \<Rightarrow> (c # seg) # segs))"

definition segment_value :: "string \<Rightarrow> nat" where
  "segment_value s = (if s \<noteq> [] \<and> list_all is_digit s then read_nat s else 0)"

fun compare_segments :: "nat list \<Rightarrow> nat list \<Rightarrow> int" where
  "compare_segments [] [] = 0"
| "compare_segments (x # xs) [] = (if 0 < x then 1 else compare_segments xs [])"
| "compare_segments [] (y # ys) = (if 0 < y then - 1 else compare_segments [] ys)"
| "compare_segments (x # xs) (y # ys) =
     (if y < x then 1 else if x < y then - 1 else compare_segments xs ys)"

text \<open>
  Modelled from the spec: \<open>versionCompare\<close> of \<open>versionUtils\<close>, which is imported and
  whose code is not among the files verified here. The spec: it compares the dotted
  numeric segments of a version string with a version triple, from the left and by
  numeric value, zero-padding the shorter one, and returns a positive number when the
  string is the newer version, a negative one when it is the older.
\<close>

definition versionCompare :: version_compare where
  "versionCompare a b = compare_segments (map segment_value (split_dots a)) b"

section \<open>The revision of the firmware\<close>

definition is_hex_letter :: "char \<Rightarrow> bool" where
  "is_hex_letter c =
     (let n = (of_char c :: nat) in (97 \<le> n \<and> n \<le> 102) \<or> (65 \<le> n \<and> n \<le> 70))"

definition is_hex_char :: "char \<Rightarrow> bool" where
  "is_hex_char c = (is_hex_letter c \<or> is_digit c)"

text \<open>The line terminators, which the dot of a regular expression does not match.\<close>

definition line_terminator :: "char \<Rightarrow> bool" where
  "line_terminator c = ((of_char c :: nat) = 10 \<or> (of_char c :: nat) = 13)"

text \<open>
  The lookahead \<open>(?=.*[a-f])\<close> at the start of the string, case-insensitive: some
  character is a letter a to f, and no line terminator stands before it.
\<close>

fun lookahead_letter :: "string \<Rightarrow> bool" where
  "lookahead_letter [] = False"
| "lookahead_letter (c # cs) = (is_hex_letter c \<or> (\<not> line_terminator c \<and> lookahead_letter cs))"

text \<open>The test \<open>/^(?=.*[a-f])([a-f0-9]*)$/gi\<close>.\<close>

definition standard_notation :: "string \<Rightarrow> bool" where
  "standard_notation s = (lookahead_letter s \<and> list_all is_hex_char s)"

text \<open>The test \<open>/^([a-f0-9])*$/gi\<close>.\<close>

definition only_hex_chars :: "string \<Rightarrow> bool" where
  "only_hex_chars s = list_all is_hex_char s"

definition hex_value :: "char \<Rightarrow> nat option" where
  "hex_value c =
     (let n = (of_char c :: nat) in
      if 48 \<le> n \<and> n \<le> 57 then Some (n - 48)
      else if 97 \<le> n \<and> n \<le> 102 then Some (n - 87)
      else if 65 \<le> n \<and> n \<le> 70 then Some (n - 55)
      else None)"

text \<open>
  \<open>Buffer.from(revision, 'hex')\<close>: two hex digits give a byte; the decoding stops at the
  first pair that is not two hex digits, and a last character without a partner is
  ignored. The bytes are characters of the 8-bit alphabet.
\<close>

fun Buffer_from_hex :: "string \<Rightarrow> string" where
  "Buffer_from_hex (a # b # rest) =
     (case (hex_value a, hex_value b) of
        (Some h, Some l) \<Rightarrow> char_of (16 * h + l) # Buffer_from_hex rest
      | _ \<Rightarrow> [])"
| "Buffer_from_hex _ = []"

text \<open>
  \<open>parseRevision\<close>. The text \<open>revisionUtf8\<close> is the byte string: a byte below 128 decodes
  to the character with that code, and where a byte is 128 or more the decoded text holds a
  character outside ASCII, which the last test rejects as it rejects that byte here, so
  that the result is the revision as it came in both.
\<close>

definition parseRevision :: "'c Features \<Rightarrow> string option" where
  "parseRevision features =
     (case revision features of
        None \<Rightarrow> None
      | Some rv \<Rightarrow>
          if rv = [] then None
          else if standard_notation rv then Some rv
          else (let revisionUtf8 = Buffer_from_hex rv
                in if only_hex_chars revisionUtf8 then Some revisionUtf8 else Some rv))"

text \<open>
  The hex encoding of the bytes of a string (\<open>Buffer.from(r).toString('hex')\<close>), which the
  round trip of the specification applies before \<open>parseRevision\<close>: two lower-case hex
  digits per byte.
\<close>

definition hex_digit :: "nat \<Rightarrow> char" where
  "hex_digit d = (if d < 10 then char_of (48 + d) else char_of (87 + d))"

definition hexEncode :: "string \<Rightarrow> string" where
  "hexEncode r = concat (map (\<lambda>c. [hex_digit ((of_char c :: nat) div 16), hex_digit ((of_char c :: nat) mod 16)]) r)"

section \<open>The witness paths of a Cardano transaction\<close>

type_synonym Path = "nat list"

record InputWithPath =
  input_path :: "Path option"

text \<open>
  Modelled from the spec: the enumeration \<open>CardanoCertificateType\<close> of the protobuf types,
  which is imported and whose declaration is not among the files verified here. The two
  members that \<open>gatherWitnessPaths\<close> tests for, stake delegation and stake
  deregistration, have their names; every other type of certificate is
  \<open>OTHER_CERTIFICATE_TYPE\<close> with its number.
\<close>

datatype CardanoCertificateType =
  STAKE_DEREGISTRATION | STAKE_DELEGATION | OTHER_CERTIFICATE_TYPE nat

record Certificate =
  cert_type :: CardanoCertificateType
  cert_path :: "Path option"

record PoolOwner =
  staking_key_path :: "Path option"

record CertificateWithPoolOwnersAndRelays =
  certificate :: Certificate
  poolOwners :: "PoolOwner list"

record CardanoTxWithdrawal =
  withdrawal_path :: "Path option"

text \<open>
  \<open>JSON.stringify\<close> of a path: the components in decimal, separated by commas, in
  brackets. Of \<open>undefined\<close> it is \<open>undefined\<close>, which is not a string.
\<close>

fun join_commas :: "string list \<Rightarrow> string" where
  "join_commas [] = []"
| "join_commas [x] = x"
| "join_commas (x # y # ys) = x @ '','' @ join_commas (y # ys)"

definition JSON_stringify :: "Path option \<Rightarrow> string option" where
  "JSON_stringify path =
     (case path of
        None \<Rightarrow> None
      | Some p \<Rightarrow> Some (''['' @ join_commas (map show_nat p) @ '']''))"

type_synonym witness_map = "(string option \<times> Path option) list"

text \<open>The local function \<open>_insert\<close>.\<close>

definition insert_path :: "Path option \<Rightarrow> witness_map \<Rightarrow> witness_map" where
  "insert_path path witnessPaths = (let pathKey = JSON_stringify path in assoc_set pathKey path witnessPaths)"

definition input_cb :: "InputWithPath \<Rightarrow> witness_map \<Rightarrow> witness_map" where
  "input_cb i witnessPaths =
     (if input_path i \<noteq> None then insert_path (input_path i) witnessPaths else witnessPaths)"

definition owner_cb :: "PoolOwner \<Rightarrow> witness_map \<Rightarrow> witness_map" where
  "owner_cb poolOwner witnessPaths =
     (if staking_key_path poolOwner \<noteq> None
      then insert_path (staking_key_path poolOwner) witnessPaths else witnessPaths)"

definition certificate_cb :: "CertificateWithPoolOwnersAndRelays \<Rightarrow> witness_map \<Rightarrow> witness_map" where
  "certificate_cb c witnessPaths =
     (let wp =
        (if cert_path (certificate c) \<noteq> None \<and>
            (cert_type (certificate c) = STAKE_DELEGATION \<or>
             cert_type (certificate c) = STAKE_DEREGISTRATION)
         then insert_path (cert_path (certificate c)) witnessPaths
         else witnessPaths)
      in fold owner_cb (poolOwners c) wp)"

definition withdrawal_cb :: "CardanoTxWithdrawal \<Rightarrow> witness_map \<Rightarrow> witness_map" where
  "withdrawal_cb w witnessPaths = insert_path (withdrawal_path w) witnessPaths"

text \<open>
  \<open>gatherWitnessPaths\<close>: \<open>witnessPaths\<close> is the map after the three loops, and the
  result is the sequence of its values; an entry is \<open>None\<close> where the value stored is
  \<open>undefined\<close>.
\<close>

definition witnessPaths :: "InputWithPath list \<Rightarrow> CertificateWithPoolOwnersAndRelays list \<Rightarrow>
    CardanoTxWithdrawal list \<Rightarrow> witness_map" where
  "witnessPaths inputsWithPath certificatesWithPoolOwnersAndRelays withdrawals =
     fold withdrawal_cb withdrawals
       (fold certificate_cb certificatesWithPoolOwnersAndRelays
          (fold input_cb inputsWithPath []))"

definition gatherWitnessPaths :: "InputWithPath list \<Rightarrow> CertificateWithPoolOwnersAndRelays list \<Rightarrow>
    CardanoTxWithdrawal list \<Rightarrow> Path option list" where
  "gatherWitnessPaths inputsWithPath certificatesWithPoolOwnersAndRelays withdrawals =
     map snd (witnessPaths inputsWithPath certificatesWithPoolOwnersAndRelays withdrawals)"

text \<open>
  The sequences the specification speaks of. \<open>first_occurrences\<close> keeps of every value its
  first occurrence. \<open>declared_paths\<close> is the path of a certificate of one of the two
  qualifying types, \<open>owner_paths\<close> the staking-key paths of its pool owners.
  \<open>insertion_sequence_spec\<close> is the order in the words of the specification: the paths of
  the inputs, then the declared paths of the certificates, then the paths of the pool
  owners, then the paths of the withdrawals. \<open>insertion_sequence\<close> takes the certificates
  one after the other, the declared path of each before the paths of its pool owners.
\<close>

definition first_occurrences :: "'a list \<Rightarrow> 'a list" where
  "first_occurrences xs = fold (\<lambda>x acc. if x \<in> set acc then acc else acc @ [x]) xs []"

definition input_paths :: "InputWithPath list \<Rightarrow> Path option list" where
  "input_paths inputs = filter (\<lambda>p. p \<noteq> None) (map input_path inputs)"

definition declared_paths :: "CertificateWithPoolOwnersAndRelays \<Rightarrow> Path option list" where
  "declared_paths c =
     (if cert_path (certificate c) \<noteq> None \<and>
         (cert_type (certificate c) = STAKE_DELEGATION \<or>
          cert_type (certificate c) = STAKE_DEREGISTRATION)
      then [cert_path (certificate c)] else [])"

definition owner_paths :: "CertificateWithPoolOwnersAndRelays \<Rightarrow> Path option list" where
  "owner_paths c = filter (\<lambda>p. p \<noteq> None) (map staking_key_path (poolOwners c))"

definition insertion_sequence_spec :: "InputWithPath list \<Rightarrow> CertificateWithPoolOwnersAndRelays list \<Rightarrow>
    CardanoTxWithdrawal list \<Rightarrow> Path option list" where
  "insertion_sequence_spec inputs certs withdrawals =
     input_paths inputs @ concat (map declared_paths certs) @ concat (map owner_paths certs)
       @ map withdrawal_path withdrawals"

definition insertion_sequence :: "InputWithPath list \<Rightarrow> CertificateWithPoolOwnersAndRelays list \<Rightarrow>
    CardanoTxWithdrawal list \<Rightarrow> Path option list" where
  "insertion_sequence inputs certs withdrawals =
     input_paths inputs @ concat (map (\<lambda>c. declared_paths c @ owner_paths c) certs)
       @ map withdrawal_path withdrawals"

section \<open>Notions used in the statements about the report\<close>

text \<open>
  The key of the support object and the firmware triple, as the first lines of
  \<open>getUnavailableCapabilities\<close> compute them.
\<close>

definition model_key :: "'c Features \<Rightarrow> string" where
  "model_key features = ''trezor'' @ show_nat (major_version features)"

definition firmware :: "'c Features \<Rightarrow> nat list" where
  "firmware features = [major_version features, minor_version features, patch_version features]"

text \<open>
  A coin fails the check of stage 3 when its minimum version for the model compares newer
  than the firmware. The three lists are the coins that stage 1, stage 2 and stage 3 write
  a reason for.
\<close>

definition out_of_range :: "version_compare \<Rightarrow> string \<Rightarrow> nat list \<Rightarrow> CoinInfo \<Rightarrow> bool" where
  "out_of_range vc key fw info =
     (case support_version key info of None \<Rightarrow> False | Some v \<Rightarrow> vc v fw > 0)"

definition no_support_coins :: "string \<Rightarrow> CoinInfo list \<Rightarrow> CoinInfo list" where
  "no_support_coins key coins = filter (\<lambda>info. support_version key info = None) coins"

definition no_capability_coins :: "string \<Rightarrow> string list \<Rightarrow> CoinInfo list \<Rightarrow> CoinInfo list" where
  "no_capability_coins key caps coins =
     filter (\<lambda>info. support_version key info \<noteq> None \<and> unavailable_cb caps info) coins"

definition update_required_coins :: "version_compare \<Rightarrow> string \<Rightarrow> nat list \<Rightarrow> string list \<Rightarrow>
    CoinInfo list \<Rightarrow> CoinInfo list" where
  "update_required_coins vc key fw caps coins =
     filter (\<lambda>info. support_version key info \<noteq> None \<and> \<not> unavailable_cb caps info \<and>
                  out_of_range vc key fw info) coins"

text \<open>Devices, coins and entries of the support table for the concrete cases.\<close>

definition device_T1 :: "string list option Features" where
  "device_T1 = \<lparr>firmware_present = Some True, major_version = 1, minor_version = 9,
     patch_version = 3, capabilities = Some [''Capability_Bitcoin''], revision = None\<rparr>"

definition device_T2 :: "string list option \<Rightarrow> string list option Features" where
  "device_T2 caps = \<lparr>firmware_present = Some True, major_version = 2, minor_version = 0,
     patch_version = 0, capabilities = caps, revision = None\<rparr>"

definition device_T2_3 :: "string list option Features" where
  "device_T2_3 = \<lparr>firmware_present = Some True, major_version = 2, minor_version = 3,
     patch_version = 0, capabilities = Some [''Capability_Bitcoin''], revision = None\<rparr>"

definition device_T1_bare :: "string list option Features" where
  "device_T1_bare = \<lparr>firmware_present = Some True, major_version = 1, minor_version = 9,
     patch_version = 3, capabilities = None, revision = None\<rparr>"

definition coin_BTC :: CoinInfo where
  "coin_BTC = \<lparr>coin_type = ''bitcoin'', name = ''Bitcoin'', shortcut = ''BTC'',
     support = Some [(''trezor1'', SString ''1.5.2''), (''trezor2'', SString ''2.1.0'')]\<rparr>"

definition coin_LTC :: CoinInfo where
  "coin_LTC = \<lparr>coin_type = ''bitcoin'', name = ''Litecoin'', shortcut = ''LTC'',
     support = Some [(''trezor1'', SString ''1.5.2''), (''trezor2'', SString ''2.1.0'')]\<rparr>"

definition coin_ADA_T1 :: CoinInfo where
  "coin_ADA_T1 = \<lparr>coin_type = ''misc'', name = ''Cardano'', shortcut = ''ADA'',
     support = Some [(''trezor1'', SString ''1.9.0''), (''trezor2'', SBool False)]\<rparr>"

definition coin_BTC_T1 :: CoinInfo where
  "coin_BTC_T1 = \<lparr>coin_type = ''bitcoin'', name = ''Bitcoin'', shortcut = ''BTC'',
     support = Some [(''trezor1'', SString ''1.5.2'')]\<rparr>"

definition coin_tBTC :: CoinInfo where
  "coin_tBTC = \<lparr>coin_type = ''bitcoin'', name = ''Testnet'', shortcut = ''btc'',
     support = Some [(''trezor1'', SString ''1.5.2''), (''trezor2'', SString ''2.0.0'')]\<rparr>"

definition coin_PROTO :: CoinInfo where
  "coin_PROTO = \<lparr>coin_type = ''misc'', name = ''Proto'', shortcut = ''__PROTO__'',
     support = None\<rparr>"

definition coin_PROTO_T2 :: CoinInfo where
  "coin_PROTO_T2 = \<lparr>coin_type = ''bitcoin'', name = ''Proto'', shortcut = ''__PROTO__'',
     support = Some [(''trezor2'', SString ''2.1.0'')]\<rparr>"

definition entry_sentinel :: SupportEntry where
  "entry_sentinel = \<lparr>s_capabilities = Some [''eosGetPublicKey'', ''eosSignTransaction''],
     s_min = Some [''0'', ''2.1.1''], s_max = None\<rparr>"

definition entry_proto :: SupportEntry where
  "entry_proto = \<lparr>s_capabilities = Some [''__proto__''],
     s_min = Some [''0'', ''0''], s_max = None\<rparr>"

definition entry_newer :: SupportEntry where
  "entry_newer = \<lparr>s_capabilities = Some [''replaceTransaction''],
     s_min = Some [''1.9.4'', ''2.3.5''], s_max = None\<rparr>"

definition entry_older :: SupportEntry where
  "entry_older = \<lparr>s_capabilities = Some [''legacyMethod''],
     s_min = None, s_max = Some [''1.9.0'', ''2.2.0'']\<rparr>"

section \<open>Notions used in the statements about revisions and witness paths\<close>

text \<open>A device that reports the revision \<open>r\<close>.\<close>

definition device_revision :: "string \<Rightarrow> int list option Features" where
  "device_revision r = \<lparr>firmware_present = Some True, major_version = 2, minor_version = 3,
     patch_version = 0, capabilities = None, revision = Some r\<rparr>"

text \<open>
  A field of a comma-separated string: not empty, without a comma. A witness map is
  \<open>keyed\<close> when every entry stands under the key of its value.
\<close>

definition field :: "string \<Rightarrow> bool" where
  "field x = (x \<noteq> [] \<and> CHR '','' \<notin> set x)"

definition keyed :: "witness_map \<Rightarrow> bool" where
  "keyed wp = (\<forall>e \<in> set wp. fst e = JSON_stringify (snd e))"

text \<open>Paths and certificates for the concrete cases.\<close>

definition staking_path :: Path where
  "staking_path = [1852, 1815, 0, 2, 0]"

definition payment_path :: Path where
  "payment_path = [1852, 1815, 0, 0, 0]"

definition owner_path :: Path where
  "owner_path = [1852, 1815, 1, 2, 0]"

definition cert_pool_registration :: CertificateWithPoolOwnersAndRelays where
  "cert_pool_registration =
     \<lparr>certificate = \<lparr>cert_type = OTHER_CERTIFICATE_TYPE 3, cert_path = None\<rparr>,
      poolOwners = [\<lparr>staking_key_path = Some owner_path\<rparr>, \<lparr>staking_key_path = None\<rparr>]\<rparr>"

definition cert_delegation :: CertificateWithPoolOwnersAndRelays where
  "cert_delegation =
     \<lparr>certificate = \<lparr>cert_type = STAKE_DELEGATION, cert_path = Some staking_path\<rparr>,
      poolOwners = []\<rparr>"

definition cert_registration :: CertificateWithPoolOwnersAndRelays where
  "cert_registration =
     \<lparr>certificate = \<lparr>cert_type = OTHER_CERTIFICATE_TYPE 0, cert_path = Some owner_path\<rparr>,
      poolOwners = []\<rparr>"

section \<open>Properties of \<open>parseCapabilities\<close>\<close>

lemma length_CAPABILITIES: "length CAPABILITIES = 17"
  by (simp add: CAPABILITIES_def)

lemma nonempty_CAPABILITIES: "s \<in> set CAPABILITIES \<Longrightarrow> s \<noteq> []"
  by (auto simp add: CAPABILITIES_def)

lemma capability_filter_in_range:
  assumes "1 \<le> c" "c \<le> 17"
  shows "capability_filter c = [CAPABILITIES ! nat (c - 1)]"
proof -
  have i: "nat (c - 1) < length CAPABILITIES"
    using assms by (simp add: length_CAPABILITIES)
  then have "CAPABILITIES ! nat (c - 1) \<in> set CAPABILITIES"
    by (rule nth_mem)
  then have "CAPABILITIES ! nat (c - 1) \<noteq> []"
    by (rule nonempty_CAPABILITIES)
  then show ?thesis
    using assms by (simp add: capability_filter_def js_index_def length_CAPABILITIES)
qed

lemma capability_filter_out_of_range:
  assumes "c \<le> 0 \<or> 17 < c"
  shows "capability_filter c = []"
  using assms by (auto simp add: capability_filter_def js_index_def length_CAPABILITIES)

lemma capability_filter_eq:
  "capability_filter c = (if 1 \<le> c \<and> c \<le> 17 then [CAPABILITIES ! nat (c - 1)] else [])"
  using capability_filter_in_range [of c] capability_filter_out_of_range [of c]
  by (cases "1 \<le> c \<and> c \<le> 17") auto


text \<open>
  Claim C5. When the device state is there, \<open>firmware_present\<close> is not \<open>false\<close>, the
  reported codes are absent or empty and the major version is 1, \<open>parseCapabilities\<close>
  returns the entries 1, 2, 5, 7, 10, 12 and 14 of the table (counted from 1), in this
  order.
\<close>

theorem parseCapabilities_default_T1:
  assumes "firmware_present f \<noteq> Some False"
    and "capabilities f = None \<or> capabilities f = Some []"
    and "major_version f = 1"
  shows "parseCapabilities (Some f) =
           map (\<lambda>i. CAPABILITIES ! (i - 1)) [1, 2, 5, 7, 10, 12, 14]"
proof -
  have "parseCapabilities (Some f) = flatMap capability_filter DEFAULT_CAPABILITIES_T1"
    using assms by (auto simp add: parseCapabilities_def)
  also have "\<dots> = map (\<lambda>i. CAPABILITIES ! (i - 1)) [1, 2, 5, 7, 10, 12, 14]"
    by (simp add: flatMap_def DEFAULT_CAPABILITIES_T1_def capability_filter_eq)
  finally show ?thesis .
qed

theorem parseCapabilities_default_T1_witness:
  "parseCapabilities (Some \<lparr>firmware_present = Some True, major_version = 1, minor_version = 8,
      patch_version = 0, capabilities = Some [], revision = None\<rparr>) =
     [''Capability_Bitcoin'', ''Capability_Bitcoin_like'', ''Capability_Crypto'',
      ''Capability_Ethereum'', ''Capability_NEM'', ''Capability_Stellar'', ''Capability_U2F'']"
  using parseCapabilities_default_T1 [of "\<lparr>firmware_present = Some True, major_version = 1,
      minor_version = 8, patch_version = 0, capabilities = Some [], revision = None\<rparr>"]
  by (simp add: CAPABILITIES_def)

text \<open>
  Claim C6. Without a device state, or with \<open>firmware_present\<close> equal to \<open>false\<close>,
  \<open>parseCapabilities\<close> returns no capability, whatever the other fields hold.
\<close>

theorem parseCapabilities_no_firmware:
  "parseCapabilities None = [] \<and>
   (firmware_present f = Some False \<longrightarrow> parseCapabilities (Some f) = [])"
  by (simp add: parseCapabilities_def)

theorem parseCapabilities_no_firmware_witness:
  "firmware_present \<lparr>firmware_present = Some False, major_version = 2, minor_version = 3,
      patch_version = 0, capabilities = Some [1, 2, 3], revision = None\<rparr> = Some False \<and>
   parseCapabilities (Some \<lparr>firmware_present = Some False, major_version = 2, minor_version = 3,
      patch_version = 0, capabilities = Some [1, 2, 3], revision = None\<rparr>) = []"
  using parseCapabilities_no_firmware [of "\<lparr>firmware_present = Some False, major_version = 2,
      minor_version = 3, patch_version = 0, capabilities = Some [1, 2, 3], revision = None\<rparr>"]
  by simp

text \<open>
  On a field of the declared type the two embeddings of \<open>parseCapabilities\<close> agree, and
  nothing is raised.
\<close>

lemma parseCapabilities_js_typed:
  assumes "firmware_present g = firmware_present f" and "major_version g = major_version f"
    and "capabilities g = typed_capabilities (capabilities f)"
  shows "parseCapabilities_js (Some g) = Inr (parseCapabilities (Some f))"
  using assms
  by (cases "capabilities f")
     (simp_all add: parseCapabilities_js_def parseCapabilities_def typed_capabilities_def
        js_truthy_def js_length_def js_flatMap_def Let_def)





section \<open>Properties of \<open>getUnavailableCapabilities\<close>\<close>

lemma map_of_assoc_set: "map_of (assoc_set k v al) = (map_of al)(k \<mapsto> v)"
  by (induction al) (auto simp add: fun_eq_iff)

lemma keys_assoc_set: "set (map fst (assoc_set k v al)) = insert k (set (map fst al))"
  by (induction al) auto

lemma distinct_assoc_set:
  "distinct (map fst al) \<Longrightarrow> distinct (map fst (assoc_set k v al))"
proof (induction al)
  case Nil
  then show ?case by simp
next
  case (Cons p ps)
  have "fst p \<notin> insert k (fst ` set ps)" if "fst p \<noteq> k"
    using that Cons.prems by auto
  then show ?case
    using Cons keys_assoc_set [of k v ps] by auto
qed

lemma map_of_obj_set:
  "map_of (obj_set k v al) k' =
     (if k' = k \<and> k \<noteq> ''__proto__'' then Some v else map_of al k')"
  by (simp add: obj_set_def map_of_assoc_set)

lemma distinct_obj_set:
  "distinct (map fst al) \<Longrightarrow> distinct (map fst (obj_set k v al))"
  by (simp add: obj_set_def distinct_assoc_set)

lemma map_of_fold_obj_set:
  "map_of (fold (\<lambda>x. obj_set (g x) v) xs al) k =
     (if k \<noteq> ''__proto__'' \<and> k \<in> g ` set xs then Some v else map_of al k)"
  by (induction xs arbitrary: al) (auto simp add: map_of_obj_set)

lemma distinct_fold_obj_set:
  "distinct (map fst al) \<Longrightarrow> distinct (map fst (fold (\<lambda>x. obj_set (g x) (h x)) xs al))"
  by (induction xs arbitrary: al) (auto simp add: distinct_obj_set)

lemma filter_st_supported_cb:
  "filter_st (supported_cb lc key) coins list =
     (filter (\<lambda>info. support_version key info \<noteq> None) coins,
      fold (\<lambda>info. obj_set (lc (shortcut info)) NoSupport)
        (filter (\<lambda>info. support_version key info = None) coins) list)"
  by (induction coins arbitrary: list) (auto simp add: supported_cb_def)

lemma not_member_filter:
  "filter (\<lambda>x. x \<notin> set (filter P xs)) xs = filter (\<lambda>x. \<not> P x) xs"
  by (rule filter_cong) auto

lemma fold_range_cb:
  "fold (range_cb vc lc key fw) cands (list, unav) =
     (fold (\<lambda>info. obj_set (lc (shortcut info)) UpdateRequired)
        (filter (out_of_range vc key fw) cands) list,
      unav @ filter (out_of_range vc key fw) cands)"
  by (induction cands arbitrary: list unav)
     (auto simp add: range_cb_def out_of_range_def split: option.splits)

lemma coin_stages_eq:
  "fst (coin_stages vc lc key fw caps coins) =
     fold (\<lambda>info. obj_set (lc (shortcut info)) UpdateRequired)
       (update_required_coins vc key fw caps coins)
       (fold (\<lambda>info. obj_set (lc (shortcut info)) NoCapability)
          (no_capability_coins key caps coins)
          (fold (\<lambda>info. obj_set (lc (shortcut info)) NoSupport)
             (no_support_coins key coins) []))"
proof -
  define supported where "supported = filter (\<lambda>info. support_version key info \<noteq> None) coins"
  have u: "filter (unavailable_cb caps) supported = no_capability_coins key caps coins"
    by (simp add: supported_def no_capability_coins_def)
  have c: "filter (out_of_range vc key fw) (filter (\<lambda>x. \<not> unavailable_cb caps x) supported) =
           update_required_coins vc key fw caps coins"
    by (simp add: supported_def update_required_coins_def conj_commute conj_left_commute)
  define list1 where "list1 = fold (\<lambda>info. obj_set (lc (shortcut info)) NoSupport)
             (no_support_coins key coins) []"
  have s1: "filter_st (supported_cb lc key) coins [] = (supported, list1)"
    by (simp only: filter_st_supported_cb supported_def list1_def no_support_coins_def)
  have "coin_stages vc lc key fw caps coins =
      fold (range_cb vc lc key fw)
        (filter (\<lambda>info. info \<notin> set (filter (unavailable_cb caps) supported)) supported)
        (fold (\<lambda>info. obj_set (lc (shortcut info)) NoCapability)
           (filter (unavailable_cb caps) supported) list1,
         filter (unavailable_cb caps) supported)"
    by (simp only: coin_stages_def s1 Let_def prod.case)
  then have "fst (coin_stages vc lc key fw caps coins) =
     fold (\<lambda>info. obj_set (lc (shortcut info)) UpdateRequired)
       (filter (out_of_range vc key fw) (filter (\<lambda>x. \<not> unavailable_cb caps x) supported))
       (fold (\<lambda>info. obj_set (lc (shortcut info)) NoCapability)
          (filter (unavailable_cb caps) supported) list1)"
    by (simp only: not_member_filter fold_range_cb fst_conv)
  then show ?thesis
    by (simp only: u c list1_def)
qed

lemma coin_stages_map_of:
  "map_of (fst (coin_stages vc lc key fw caps coins)) k =
     (if k = ''__proto__'' then None
      else if k \<in> (\<lambda>info. lc (shortcut info)) ` set (update_required_coins vc key fw caps coins)
      then Some UpdateRequired
      else if k \<in> (\<lambda>info. lc (shortcut info)) ` set (no_capability_coins key caps coins)
      then Some NoCapability
      else if k \<in> (\<lambda>info. lc (shortcut info)) ` set (no_support_coins key coins)
      then Some NoSupport
      else None)"
  by (simp add: coin_stages_eq map_of_fold_obj_set)

lemma coin_stages_distinct: "distinct (map fst (fst (coin_stages vc lc key fw caps coins)))"
  by (simp add: coin_stages_eq distinct_fold_obj_set)

lemma distinct_min_block:
  "distinct (map fst list) \<Longrightarrow> distinct (map fst (min_block vc fw mn caps list))"
  by (simp add: min_block_def Let_def distinct_fold_obj_set split: option.splits)

lemma distinct_max_block:
  "distinct (map fst list) \<Longrightarrow> distinct (map fst (max_block vc fw mx caps list))"
  by (simp add: max_block_def distinct_fold_obj_set split: option.splits)

lemma distinct_support_cb:
  "distinct (map fst list) \<Longrightarrow> distinct (map fst (support_cb vc fw s list))"
  by (simp add: support_cb_def distinct_min_block distinct_max_block split: option.splits)

lemma distinct_fold_support_cb:
  "distinct (map fst list) \<Longrightarrow> distinct (map fst (fold (support_cb vc fw) tab list))"
  by (induction tab arbitrary: list) (simp_all add: distinct_support_cb)

lemma getUnavailableCapabilities_distinct:
  "distinct (map fst (getUnavailableCapabilities vc lc features coins tab))"
  by (simp add: getUnavailableCapabilities_def Let_def distinct_fold_support_cb coin_stages_distinct
      split: option.splits)

text \<open>The report never holds the key \<open>__proto__\<close>.\<close>

lemma proto_min_block:
  "map_of (min_block vc fw mn caps list) ''__proto__'' = map_of list ''__proto__''"
  by (simp add: min_block_def Let_def map_of_fold_obj_set split: option.splits)

lemma proto_max_block:
  "map_of (max_block vc fw mx caps list) ''__proto__'' = map_of list ''__proto__''"
  by (simp add: max_block_def map_of_fold_obj_set split: option.splits)

lemma proto_support_cb:
  "map_of (support_cb vc fw s list) ''__proto__'' = map_of list ''__proto__''"
  by (simp add: support_cb_def proto_min_block proto_max_block split: option.splits)

lemma proto_fold_support_cb:
  "map_of (fold (support_cb vc fw) tab list) ''__proto__'' = map_of list ''__proto__''"
  by (induction tab arbitrary: list) (simp_all add: proto_support_cb)

lemma getUnavailableCapabilities_proto:
  "map_of (getUnavailableCapabilities vc lc features coins tab) ''__proto__'' = None"
  by (simp add: getUnavailableCapabilities_def Let_def proto_fold_support_cb coin_stages_map_of
      split: option.splits)

lemma getUnavailableCapabilities_coins:
  "capabilities features = Some caps \<Longrightarrow>
     getUnavailableCapabilities vc lc features coins [] =
       fst (coin_stages vc lc (model_key features) (firmware features) caps coins)"
  by (simp add: getUnavailableCapabilities_def model_key_def firmware_def)

lemma getUnavailableCapabilities_snoc:
  "capabilities features = Some caps \<Longrightarrow>
     getUnavailableCapabilities vc lc features coins (tab @ [s]) =
       support_cb vc (firmware features) s (getUnavailableCapabilities vc lc features coins tab)"
  by (simp add: getUnavailableCapabilities_def firmware_def Let_def)

lemma update_required_coins_iff:
  "other \<in> set (update_required_coins vc key fw caps coins) \<longleftrightarrow>
     other \<in> set coins \<and> support_version key other \<noteq> None \<and> \<not> unavailable_cb caps other \<and>
     out_of_range vc key fw other"
  by (simp add: update_required_coins_def)

lemma no_capability_coins_iff:
  "other \<in> set (no_capability_coins key caps coins) \<longleftrightarrow>
     other \<in> set coins \<and> support_version key other \<noteq> None \<and> unavailable_cb caps other"
  by (simp add: no_capability_coins_def)

lemma no_support_coins_iff:
  "other \<in> set (no_support_coins key coins) \<longleftrightarrow>
     other \<in> set coins \<and> support_version key other = None"
  by (simp add: no_support_coins_def)

lemma map_of_min_block_sentinel:
  "c \<in> set caps \<Longrightarrow> c \<noteq> ''__proto__'' \<Longrightarrow>
     map_of (min_block vc fw (Some ''0'') caps list) c = Some NoSupport"
  by (simp add: min_block_def map_of_fold_obj_set)

lemma map_of_min_block_newer:
  "c \<in> set caps \<Longrightarrow> c \<noteq> ''__proto__'' \<Longrightarrow> m \<noteq> [] \<Longrightarrow> m \<noteq> ''0'' \<Longrightarrow> vc m fw > 0 \<Longrightarrow>
     map_of (min_block vc fw (Some m) caps list) c = Some UpdateRequired"
  by (simp add: min_block_def map_of_fold_obj_set)

lemma map_of_max_block_older:
  "c \<in> set caps \<Longrightarrow> c \<noteq> ''__proto__'' \<Longrightarrow> m \<noteq> [] \<Longrightarrow> vc m fw < 0 \<Longrightarrow>
     map_of (max_block vc fw (Some m) caps list) c = Some TrezorConnectOutdated"
  by (simp add: max_block_def map_of_fold_obj_set)

lemma max_block_idle:
  "\<forall>m. mx = Some m \<longrightarrow> m = [] \<or> \<not> vc m fw < 0 \<Longrightarrow> max_block vc fw mx caps list = list"
  by (auto simp add: max_block_def split: option.splits)

text \<open>
  Claim C4. When the features of the device have no \<open>capabilities\<close>, the report of
  \<open>getUnavailableCapabilities\<close> is empty for every catalog and every table of support
  ranges: no coin gets a reason, a coin without a support entry for the model included.
\<close>

theorem getUnavailableCapabilities_no_capabilities:
  "capabilities features = None \<Longrightarrow>
     getUnavailableCapabilities vc lc features coins support_table = []"
  by (simp add: getUnavailableCapabilities_def)

theorem getUnavailableCapabilities_no_capabilities_witness:
  "getUnavailableCapabilities versionCompare ascii_toLowerCase
     \<lparr>firmware_present = Some True, major_version = 2, minor_version = 0, patch_version = 0,
      capabilities = None, revision = None\<rparr>
     [\<lparr>coin_type = ''misc'', name = ''Cardano'', shortcut = ''ADA'',
       support = Some [(''trezor1'', SBool False)]\<rparr>]
     [\<lparr>s_capabilities = Some [''getAccountInfo''], s_min = Some [''0'', ''0''], s_max = None\<rparr>] = []"
  using getUnavailableCapabilities_no_capabilities [of
     "\<lparr>firmware_present = Some True, major_version = 2, minor_version = 0, patch_version = 0,
      capabilities = None, revision = None\<rparr>" versionCompare ascii_toLowerCase]
  by simp

text \<open>
  Claim C1, as amended. The report holds at most one reason for a key, whatever the
  catalog and the support table are, and it never holds the key \<open>__proto__\<close>, which a
  plain object does not store. For a coin of the catalog that has a minimum version \<open>v\<close>
  for the model and whose lower-cased shortcut is not \<open>__proto__\<close>, on a device that
  reports capabilities, after stages 1 to 3 (the report for an empty support table):
  \<^item> if the coin has its capability and \<open>v\<close> is newer than the firmware, its key ends
    as \<open>'update-required'\<close>, whatever the earlier stages wrote under that key for other
    entries of the catalog: the write of the later stage replaces the reason;
  \<^item> if the coin lacks its capability, stage 3 does not visit it, and its key ends as
    \<open>'no-capability'\<close> unless stage 3 writes the key for another entry of the catalog
    with the same lower-cased shortcut; in particular it ends as \<open>'no-capability'\<close>, and
    not as \<open>'update-required'\<close>, when \<open>v\<close> is newer than the firmware and no other
    entry shares its key.
\<close>

theorem coin_stage_reasons:
  assumes "capabilities features = Some caps"
    and "key = model_key features" and "fw = firmware features"
    and "report = getUnavailableCapabilities vc lc features coins []"
    and "info \<in> set coins" and "support_version key info = Some v"
    and "lc (shortcut info) \<noteq> ''__proto__''"
  shows "distinct (map fst (getUnavailableCapabilities vc lc features coins support_table)) \<and>
    map_of (getUnavailableCapabilities vc lc features coins support_table) ''__proto__'' = None \<and>
    (\<not> unavailable_cb caps info \<and> vc v fw > 0 \<longrightarrow>
        map_of report (lc (shortcut info)) = Some UpdateRequired) \<and>
    (unavailable_cb caps info \<and>
     (\<forall>other \<in> set coins.
        lc (shortcut other) = lc (shortcut info) \<and>
        support_version key other \<noteq> None \<and> \<not> unavailable_cb caps other \<longrightarrow>
        \<not> out_of_range vc key fw other) \<longrightarrow>
        map_of report (lc (shortcut info)) = Some NoCapability) \<and>
    (unavailable_cb caps info \<and> vc v fw > 0 \<and>
     (\<forall>other \<in> set coins.
        lc (shortcut other) = lc (shortcut info) \<longrightarrow> other = info) \<longrightarrow>
        map_of report (lc (shortcut info)) = Some NoCapability)"
proof -
  have r: "report = fst (coin_stages vc lc key fw caps coins)"
    using assms by (simp add: getUnavailableCapabilities_coins)
  have a: "distinct (map fst (getUnavailableCapabilities vc lc features coins support_table))"
    by (rule getUnavailableCapabilities_distinct)
  have p: "map_of (getUnavailableCapabilities vc lc features coins support_table) ''__proto__'' = None"
    by (rule getUnavailableCapabilities_proto)
  have b: "map_of report (lc (shortcut info)) = Some UpdateRequired"
    if "\<not> unavailable_cb caps info" "vc v fw > 0"
  proof -
    have "info \<in> set (update_required_coins vc key fw caps coins)"
      using that assms(5,6) by (simp add: update_required_coins_iff out_of_range_def)
    then show ?thesis
      using assms(7) by (simp add: r coin_stages_map_of)
  qed
  have c: "map_of report (lc (shortcut info)) = Some NoCapability"
    if u: "unavailable_cb caps info"
      and o: "\<forall>other \<in> set coins.
        lc (shortcut other) = lc (shortcut info) \<and>
        support_version key other \<noteq> None \<and> \<not> unavailable_cb caps other \<longrightarrow>
        \<not> out_of_range vc key fw other"
  proof -
    have 1: "info \<in> set (no_capability_coins key caps coins)"
      using u assms(5,6) by (simp add: no_capability_coins_iff)
    have 2: "lc (shortcut info) \<notin>
        (\<lambda>info. lc (shortcut info)) ` set (update_required_coins vc key fw caps coins)"
      using o by (auto simp add: update_required_coins_iff)
    from 1 2 show ?thesis
      using assms(7) by (simp add: r coin_stages_map_of)
  qed
  have d: "map_of report (lc (shortcut info)) = Some NoCapability"
    if u: "unavailable_cb caps info"
      and o: "\<forall>other \<in> set coins.
        lc (shortcut other) = lc (shortcut info) \<longrightarrow> other = info"
  proof (rule c [OF u])
    show "\<forall>other \<in> set coins.
        lc (shortcut other) = lc (shortcut info) \<and>
        support_version key other \<noteq> None \<and> \<not> unavailable_cb caps other \<longrightarrow>
        \<not> out_of_range vc key fw other"
      using u o by auto
  qed
  from a p b c d show ?thesis
    by blast
qed

theorem coin_stage_reasons_witness:
  "map_of (getUnavailableCapabilities versionCompare ascii_toLowerCase
      (device_T2 (Some [''Capability_Bitcoin_like''])) [coin_BTC, coin_LTC] []) ''btc'' =
     Some NoCapability \<and>
   map_of (getUnavailableCapabilities versionCompare ascii_toLowerCase
      (device_T2 (Some [''Capability_Bitcoin_like''])) [coin_BTC, coin_LTC] []) ''ltc'' =
     Some UpdateRequired"
proof -
  let ?D = "device_T2 (Some [''Capability_Bitcoin_like''])"
  let ?coins = "[coin_BTC, coin_LTC]"
  let ?fw = "firmware ?D"
  have caps: "capabilities ?D = Some [''Capability_Bitcoin_like'']"
    by (simp add: device_T2_def)
  have key: "''trezor2'' = model_key ?D"
    by code_simp
  have btc: "coin_BTC \<in> set ?coins" "support_version ''trezor2'' coin_BTC = Some ''2.1.0''"
    "ascii_toLowerCase (shortcut coin_BTC) \<noteq> ''__proto__''"
    "unavailable_cb [''Capability_Bitcoin_like''] coin_BTC" "versionCompare ''2.1.0'' ?fw > 0"
    "\<forall>other \<in> set ?coins.
        ascii_toLowerCase (shortcut other) = ascii_toLowerCase (shortcut coin_BTC) \<longrightarrow>
        other = coin_BTC"
    "ascii_toLowerCase (shortcut coin_BTC) = ''btc''"
    by code_simp+
  have ltc: "coin_LTC \<in> set ?coins" "support_version ''trezor2'' coin_LTC = Some ''2.1.0''"
    "ascii_toLowerCase (shortcut coin_LTC) \<noteq> ''__proto__''"
    "\<not> unavailable_cb [''Capability_Bitcoin_like''] coin_LTC"
    "ascii_toLowerCase (shortcut coin_LTC) = ''ltc''"
    by code_simp+
  from coin_stage_reasons [where lc = ascii_toLowerCase and vc = versionCompare and support_table = "[]",
      OF caps key refl refl btc(1,2,3)] btc(4-7)
  have 1: "map_of (getUnavailableCapabilities versionCompare ascii_toLowerCase ?D ?coins []) ''btc'' =
      Some NoCapability"
    by simp
  from coin_stage_reasons [where lc = ascii_toLowerCase and vc = versionCompare and support_table = "[]",
      OF caps key refl refl ltc(1,2,3)] ltc(4,5) btc(5)
  have 2: "map_of (getUnavailableCapabilities versionCompare ascii_toLowerCase ?D ?coins []) ''ltc'' =
      Some UpdateRequired"
    by simp
  from 1 2 show ?thesis
    by simp
qed

text \<open>
  The claim as it was stated fails here: Bitcoin needs firmware 2.1.0 on the model, the
  device runs 2.0.0 and does not report \<open>Capability_Bitcoin\<close>; the coin is marked in
  stage 2, fails the version check as well, and the report says \<open>'no-capability'\<close>. And
  a coin with the shortcut \<open>__PROTO__\<close> that has its capability and fails the version
  check gets no reason at all: the write of stage 3 under \<open>__proto__\<close> leaves the report
  empty.
\<close>

theorem no_capability_kept_counterexample:
  "versionCompare ''2.1.0'' [2, 0, 0] > 0 \<and>
   support_version ''trezor2'' coin_BTC = Some ''2.1.0'' \<and>
   getUnavailableCapabilities versionCompare ascii_toLowerCase
      (device_T2 (Some [''Capability_Bitcoin_like''])) [coin_BTC] [] = [(''btc'', NoCapability)] \<and>
   support_version ''trezor2'' coin_PROTO_T2 = Some ''2.1.0'' \<and>
   \<not> unavailable_cb [''Capability_Bitcoin_like''] coin_PROTO_T2 \<and>
   getUnavailableCapabilities versionCompare ascii_toLowerCase
      (device_T2 (Some [''Capability_Bitcoin_like''])) [coin_PROTO_T2] [] = []"
  by code_simp

text \<open>
  Claim C2, as amended. On a device that reports capabilities, a coin of the catalog
  without a version string under the key of the model is not in the array \<open>supported\<close>
  that stages 2 and 3 run over, and, when its lower-cased shortcut is not \<open>__proto__\<close>,
  stage 1 writes \<open>'no-support'\<close> under its lower-cased shortcut. After stages 1 to 3 the
  key still holds \<open>'no-support'\<close>, whatever the capabilities and the version of the device
  are, unless stage 2 or stage 3 writes the key for another entry of the catalog with the
  same lower-cased shortcut. The report never holds the key \<open>__proto__\<close>.
\<close>

theorem no_support_entry:
  assumes "capabilities features = Some caps"
    and "key = model_key features" and "fw = firmware features"
    and "info \<in> set coins" and "support_version key info = None"
    and "lc (shortcut info) \<noteq> ''__proto__''"
  shows "info \<notin> set (fst (filter_st (supported_cb lc key) coins [])) \<and>
    map_of (snd (filter_st (supported_cb lc key) coins [])) (lc (shortcut info)) =
      Some NoSupport \<and>
    ((\<forall>other \<in> set coins.
        lc (shortcut other) = lc (shortcut info) \<and>
        support_version key other \<noteq> None \<longrightarrow>
        \<not> unavailable_cb caps other \<and> \<not> out_of_range vc key fw other) \<longrightarrow>
     map_of (getUnavailableCapabilities vc lc features coins []) (lc (shortcut info)) =
       Some NoSupport) \<and>
    map_of (getUnavailableCapabilities vc lc features coins support_table) ''__proto__'' = None"
proof -
  have n: "info \<in> set (no_support_coins key coins)"
    using assms(4,5) by (simp add: no_support_coins_iff)
  have a: "info \<notin> set (fst (filter_st (supported_cb lc key) coins []))"
    using assms(5) by (simp add: filter_st_supported_cb)
  have b: "map_of (snd (filter_st (supported_cb lc key) coins [])) (lc (shortcut info)) =
      Some NoSupport"
    using assms(4,5,6) by (auto simp add: filter_st_supported_cb map_of_fold_obj_set)
  have c: "map_of (getUnavailableCapabilities vc lc features coins []) (lc (shortcut info)) =
       Some NoSupport"
    if o: "\<forall>other \<in> set coins.
        lc (shortcut other) = lc (shortcut info) \<and>
        support_version key other \<noteq> None \<longrightarrow>
        \<not> unavailable_cb caps other \<and> \<not> out_of_range vc key fw other"
  proof -
    have 1: "lc (shortcut info) \<notin>
        (\<lambda>info. lc (shortcut info)) ` set (update_required_coins vc key fw caps coins)"
      using o by (auto simp add: update_required_coins_iff)
    have 2: "lc (shortcut info) \<notin>
        (\<lambda>info. lc (shortcut info)) ` set (no_capability_coins key caps coins)"
      using o by (auto simp add: no_capability_coins_iff)
    have "getUnavailableCapabilities vc lc features coins [] =
        fst (coin_stages vc lc key fw caps coins)"
      using assms(1,2,3) by (simp add: getUnavailableCapabilities_coins)
    with 1 2 n show ?thesis
      using assms(6) by (simp add: coin_stages_map_of)
  qed
  have p: "map_of (getUnavailableCapabilities vc lc features coins support_table) ''__proto__'' = None"
    by (rule getUnavailableCapabilities_proto)
  from a b c p show ?thesis
    by blast
qed

theorem no_support_entry_witness:
  "map_of (getUnavailableCapabilities versionCompare ascii_toLowerCase
      (device_T2 (Some [''Capability_Bitcoin_like''])) [coin_BTC, coin_ADA_T1] []) ''ada'' =
     Some NoSupport"
proof -
  let ?D = "device_T2 (Some [''Capability_Bitcoin_like''])"
  let ?coins = "[coin_BTC, coin_ADA_T1]"
  have caps: "capabilities ?D = Some [''Capability_Bitcoin_like'']"
    by (simp add: device_T2_def)
  have key: "''trezor2'' = model_key ?D"
    by code_simp
  have ada: "coin_ADA_T1 \<in> set ?coins" "support_version ''trezor2'' coin_ADA_T1 = None"
    "ascii_toLowerCase (shortcut coin_ADA_T1) \<noteq> ''__proto__''"
    "\<forall>other \<in> set ?coins.
        ascii_toLowerCase (shortcut other) = ascii_toLowerCase (shortcut coin_ADA_T1) \<and>
        support_version ''trezor2'' other \<noteq> None \<longrightarrow>
        \<not> unavailable_cb [''Capability_Bitcoin_like''] other \<and>
        \<not> out_of_range versionCompare ''trezor2'' (firmware ?D) other"
    "ascii_toLowerCase (shortcut coin_ADA_T1) = ''ada''"
    by code_simp+
  from no_support_entry [where lc = ascii_toLowerCase and vc = versionCompare and support_table = "[]",
      OF caps key refl ada(1,2,3)] ada(4,5)
  show ?thesis
    by simp
qed

text \<open>
  The claim as it was stated fails in three ways: for a device without \<open>capabilities\<close>
  the report is empty, so that Cardano, which has no version for the model, gets no reason;
  where a second entry of the catalog has the same lower-cased shortcut and a version for
  the model, stage 2 replaces the reason under the shared key; and a coin with the
  shortcut \<open>__PROTO__\<close> and no version for the model gets no reason, since the report
  does not store the key \<open>__proto__\<close>.
\<close>

theorem no_support_entry_counterexample:
  "support_version ''trezor2'' coin_ADA_T1 = None \<and>
   getUnavailableCapabilities versionCompare ascii_toLowerCase (device_T2 None) [coin_ADA_T1] [] = [] \<and>
   support_version ''trezor2'' coin_BTC_T1 = None \<and>
   ascii_toLowerCase (shortcut coin_BTC_T1) = ''btc'' \<and>
   getUnavailableCapabilities versionCompare ascii_toLowerCase
     (device_T2 (Some [''Capability_Bitcoin_like''])) [coin_BTC_T1, coin_tBTC] [] =
     [(''btc'', NoCapability)] \<and>
   support_version ''trezor2'' coin_PROTO = None \<and>
   ascii_toLowerCase (shortcut coin_PROTO) = ''__proto__'' \<and>
   getUnavailableCapabilities versionCompare ascii_toLowerCase
     (device_T2 (Some [''Capability_Bitcoin_like''])) [coin_PROTO] [] = []"
  by code_simp

text \<open>
  By the comparison modelled from the spec, the sentinel \<open>"0"\<close> is never newer than a
  firmware triple.
\<close>

lemma compare_segments_Nil: "compare_segments [] ys \<le> 0"
  by (induction ys) simp_all

lemma versionCompare_sentinel: "versionCompare ''0'' fw \<le> 0"
proof -
  have "map segment_value (split_dots ''0'') = [0]"
    by (simp add: segment_value_def is_digit_def read_nat_def)
  then have "versionCompare ''0'' fw = compare_segments [0] fw"
    by (simp add: versionCompare_def)
  also have "\<dots> \<le> 0"
    using compare_segments_Nil by (cases fw) simp_all
  finally show ?thesis .
qed

text \<open>
  Claim C3, as amended. Let the device report capabilities, let \<open>s\<close> be the last entry
  of the support table, with capability names \<open>caps\<close>; \<open>before\<close> is the report of the
  entries before \<open>s\<close>, \<open>after_min\<close> the report after the block of the minimum of \<open>s\<close>,
  and \<open>after\<close> the report after \<open>s\<close>, which is \<open>after_min\<close> passed through the block of
  the maximum. For every name \<open>c\<close> of \<open>caps\<close> other than \<open>__proto__\<close>:
  \<^item> if the minimum for the major version of the device is \<open>"0"\<close>, the block of the
    minimum marks \<open>c\<close> with \<open>'no-support'\<close>;
  \<^item> if the minimum exists (a string that is not empty), is not the sentinel and
    compares newer than the firmware, the block of the minimum marks \<open>c\<close> with
    \<open>'update-required'\<close>;
  \<^item> if the maximum exists and compares older than the firmware, \<open>c\<close> is marked
    \<open>'trezor-connect-outdated'\<close> in the report after \<open>s\<close>;
  \<^item> if the block of the maximum does not apply, the report after \<open>s\<close> is \<open>after_min\<close>.
  Where both blocks apply, the mark of the maximum is written last and stays. The second
  item leaves the sentinel to the first one: a minimum \<open>"0"\<close> is marked \<open>'no-support'\<close>
  whatever the comparison says. The name \<open>__proto__\<close> is never marked.
\<close>

theorem support_entry_marks:
  assumes "capabilities features = Some device_caps"
    and "fw = firmware features"
    and "s_capabilities s = Some caps" and "c \<in> set caps" and "c \<noteq> ''__proto__''"
    and "before = getUnavailableCapabilities vc lc features coins support_table"
    and "after_min = min_block vc fw (version_bound (s_min s) fw) caps before"
    and "after = getUnavailableCapabilities vc lc features coins (support_table @ [s])"
  shows "after = max_block vc fw (version_bound (s_max s) fw) caps after_min \<and>
    (version_bound (s_min s) fw = Some ''0'' \<longrightarrow> map_of after_min c = Some NoSupport) \<and>
    (\<forall>m. version_bound (s_min s) fw = Some m \<and> m \<noteq> [] \<and> m \<noteq> ''0'' \<and> vc m fw > 0 \<longrightarrow>
         map_of after_min c = Some UpdateRequired) \<and>
    (\<forall>m. version_bound (s_max s) fw = Some m \<and> m \<noteq> [] \<and> vc m fw < 0 \<longrightarrow>
         map_of after c = Some TrezorConnectOutdated) \<and>
    ((\<forall>m. version_bound (s_max s) fw = Some m \<longrightarrow> m = [] \<or> \<not> vc m fw < 0) \<longrightarrow>
         after = after_min) \<and>
    map_of after ''__proto__'' = None"
proof -
  have a: "after = max_block vc fw (version_bound (s_max s) fw) caps after_min"
    using assms by (simp add: getUnavailableCapabilities_snoc support_cb_def)
  have b: "map_of after_min c = Some NoSupport" if "version_bound (s_min s) fw = Some ''0''"
    using that assms(4,5,7) by (simp add: map_of_min_block_sentinel)
  have d: "map_of after_min c = Some UpdateRequired"
    if "version_bound (s_min s) fw = Some m" "m \<noteq> []" "m \<noteq> ''0''" "vc m fw > 0" for m
    using that assms(4,5,7) by (simp add: map_of_min_block_newer)
  have e: "map_of after c = Some TrezorConnectOutdated"
    if "version_bound (s_max s) fw = Some m" "m \<noteq> []" "vc m fw < 0" for m
    using that assms(4,5) a by (simp add: map_of_max_block_older)
  have f: "after = after_min"
    if "\<forall>m. version_bound (s_max s) fw = Some m \<longrightarrow> m = [] \<or> \<not> vc m fw < 0"
    using that a by (simp add: max_block_idle)
  have p: "map_of after ''__proto__'' = None"
    using assms(8) by (simp add: getUnavailableCapabilities_proto)
  from a b d e f p show ?thesis
    by blast
qed

theorem support_entry_marks_witness:
  "map_of (getUnavailableCapabilities versionCompare ascii_toLowerCase device_T1 [] [entry_sentinel])
      ''eosSignTransaction'' = Some NoSupport \<and>
   map_of (getUnavailableCapabilities versionCompare ascii_toLowerCase device_T2_3 [] [entry_newer])
      ''replaceTransaction'' = Some UpdateRequired \<and>
   map_of (getUnavailableCapabilities versionCompare ascii_toLowerCase device_T2_3 [] [entry_older])
      ''legacyMethod'' = Some TrezorConnectOutdated"
proof -
  have caps1: "capabilities device_T1 = Some [''Capability_Bitcoin'']"
    and caps2: "capabilities device_T2_3 = Some [''Capability_Bitcoin'']"
    by (simp_all add: device_T1_def device_T2_3_def)
  have s: "s_capabilities entry_sentinel = Some [''eosGetPublicKey'', ''eosSignTransaction'']"
    "''eosSignTransaction'' \<in> set [''eosGetPublicKey'', ''eosSignTransaction'']"
    "''eosSignTransaction'' \<noteq> ''__proto__''"
    "version_bound (s_min entry_sentinel) (firmware device_T1) = Some ''0''"
    "version_bound (s_max entry_sentinel) (firmware device_T1) = None"
    by code_simp+
  have n: "s_capabilities entry_newer = Some [''replaceTransaction'']"
    "''replaceTransaction'' \<in> set [''replaceTransaction'']"
    "''replaceTransaction'' \<noteq> ''__proto__''"
    "version_bound (s_min entry_newer) (firmware device_T2_3) = Some ''2.3.5''"
    "''2.3.5'' \<noteq> []" "''2.3.5'' \<noteq> ''0''"
    "versionCompare ''2.3.5'' (firmware device_T2_3) > 0"
    "version_bound (s_max entry_newer) (firmware device_T2_3) = None"
    by code_simp+
  have o: "s_capabilities entry_older = Some [''legacyMethod'']"
    "''legacyMethod'' \<in> set [''legacyMethod'']"
    "''legacyMethod'' \<noteq> ''__proto__''"
    "version_bound (s_max entry_older) (firmware device_T2_3) = Some ''2.2.0''"
    "''2.2.0'' \<noteq> []"
    "versionCompare ''2.2.0'' (firmware device_T2_3) < 0"
    by code_simp+
  have e: "[] @ [x] = [x]" for x :: SupportEntry
    by simp
  note S = support_entry_marks [where lc = ascii_toLowerCase and vc = versionCompare
      and coins = "[]" and support_table = "[]", OF caps1 refl s(1,2,3) refl refl refl, unfolded e]
  from S s(4) have s1: "map_of (min_block versionCompare (firmware device_T1)
        (version_bound (s_min entry_sentinel) (firmware device_T1))
        [''eosGetPublicKey'', ''eosSignTransaction'']
        (getUnavailableCapabilities versionCompare ascii_toLowerCase device_T1 [] [])) ''eosSignTransaction'' =
      Some NoSupport"
    by blast
  have si: "\<forall>m. version_bound (s_max entry_sentinel) (firmware device_T1) = Some m \<longrightarrow>
      m = [] \<or> \<not> versionCompare m (firmware device_T1) < 0"
    using s(5) by simp
  from S si have s2: "getUnavailableCapabilities versionCompare ascii_toLowerCase device_T1 [] [entry_sentinel] =
      min_block versionCompare (firmware device_T1)
        (version_bound (s_min entry_sentinel) (firmware device_T1))
        [''eosGetPublicKey'', ''eosSignTransaction'']
        (getUnavailableCapabilities versionCompare ascii_toLowerCase device_T1 [] [])"
    by blast
  from s1 s2
  have 1: "map_of (getUnavailableCapabilities versionCompare ascii_toLowerCase device_T1 [] [entry_sentinel])
      ''eosSignTransaction'' = Some NoSupport"
    by (simp only:)
  note N = support_entry_marks [where lc = ascii_toLowerCase and vc = versionCompare
      and coins = "[]" and support_table = "[]", OF caps2 refl n(1,2,3) refl refl refl, unfolded e]
  from N n(4-7) have n1: "map_of (min_block versionCompare (firmware device_T2_3)
        (version_bound (s_min entry_newer) (firmware device_T2_3))
        [''replaceTransaction'']
        (getUnavailableCapabilities versionCompare ascii_toLowerCase device_T2_3 [] [])) ''replaceTransaction'' =
      Some UpdateRequired"
    by blast
  have ni: "\<forall>m. version_bound (s_max entry_newer) (firmware device_T2_3) = Some m \<longrightarrow>
      m = [] \<or> \<not> versionCompare m (firmware device_T2_3) < 0"
    using n(8) by simp
  from N ni have n2: "getUnavailableCapabilities versionCompare ascii_toLowerCase device_T2_3 [] [entry_newer] =
      min_block versionCompare (firmware device_T2_3)
        (version_bound (s_min entry_newer) (firmware device_T2_3))
        [''replaceTransaction'']
        (getUnavailableCapabilities versionCompare ascii_toLowerCase device_T2_3 [] [])"
    by blast
  from n1 n2
  have 2: "map_of (getUnavailableCapabilities versionCompare ascii_toLowerCase device_T2_3 [] [entry_newer])
      ''replaceTransaction'' = Some UpdateRequired"
    by (simp only:)
  note O = support_entry_marks [where lc = ascii_toLowerCase and vc = versionCompare
      and coins = "[]" and support_table = "[]", OF caps2 refl o(1,2,3) refl refl refl, unfolded e]
  from O o(4-6)
  have 3: "map_of (getUnavailableCapabilities versionCompare ascii_toLowerCase device_T2_3 [] [entry_older])
      ''legacyMethod'' = Some TrezorConnectOutdated"
    by blast
  from 1 2 3 show ?thesis
    by simp
qed

text \<open>
  The claim as it was stated fails in two ways: for a device without \<open>capabilities\<close> the
  report is empty, so that the names of an entry whose minimum is the sentinel are not
  marked; and the name \<open>__proto__\<close> of an entry whose minimum is the sentinel is not
  marked on a device that reports capabilities, since the report does not store that key.
\<close>

theorem support_entry_marks_counterexample:
  "s_capabilities entry_sentinel = Some [''eosGetPublicKey'', ''eosSignTransaction''] \<and>
   version_bound (s_min entry_sentinel) (firmware device_T1_bare) = Some ''0'' \<and>
   getUnavailableCapabilities versionCompare ascii_toLowerCase device_T1_bare []
     [entry_sentinel] = [] \<and>
   s_capabilities entry_proto = Some [''__proto__''] \<and>
   version_bound (s_min entry_proto) (firmware device_T1) = Some ''0'' \<and>
   getUnavailableCapabilities versionCompare ascii_toLowerCase device_T1 []
     [entry_proto] = []"
  by code_simp

section \<open>Properties of \<open>parseRevision\<close>\<close>

lemma hex_value_hex_digit: "d < 16 \<Longrightarrow> hex_value (hex_digit d) = Some d"
  by (auto simp add: hex_value_def hex_digit_def Let_def)

lemma byte_of_nibbles: "char_of (16 * ((of_char c :: nat) div 16) + (of_char c :: nat) mod 16) = c"
  by simp

lemma nibble_bounds: "(of_char c :: nat) div 16 < 16" "(of_char c :: nat) mod 16 < 16"
proof -
  have "(of_char c :: nat) < 16 * 16"
    by simp
  then show "(of_char c :: nat) div 16 < 16"
    by (rule less_mult_imp_div_less)
  show "(of_char c :: nat) mod 16 < 16"
    by simp
qed

lemma Buffer_from_hex_hexEncode: "Buffer_from_hex (hexEncode r) = r"
proof (induction r)
  case Nil
  then show ?case by (simp add: hexEncode_def)
next
  case (Cons c r)
  have "hexEncode (c # r) =
      hex_digit ((of_char c :: nat) div 16) # hex_digit ((of_char c :: nat) mod 16) # hexEncode r"
    by (simp add: hexEncode_def)
  then show ?case
    using Cons.IH by (simp add: hex_value_hex_digit nibble_bounds)
qed

lemma hex_char_nibbles:
  assumes "is_hex_char c"
  shows "is_digit (hex_digit ((of_char c :: nat) div 16))"
    and "is_digit (hex_digit ((of_char c :: nat) mod 16))"
proof -
  define n where "n = (of_char c :: nat)"
  have r: "(48 \<le> n \<and> n \<le> 57) \<or> (65 \<le> n \<and> n \<le> 70) \<or> (97 \<le> n \<and> n \<le> 102)"
    using assms by (auto simp add: is_hex_char_def is_hex_letter_def is_digit_def Let_def n_def)
  then have "n div 16 < 10" "n mod 16 < 10"
    by presburger+
  then show "is_digit (hex_digit ((of_char c :: nat) div 16))"
    and "is_digit (hex_digit ((of_char c :: nat) mod 16))"
    by (simp_all add: is_digit_def hex_digit_def n_def [symmetric])
qed

lemma hexEncode_digits: "list_all is_hex_char r \<Longrightarrow> list_all is_digit (hexEncode r)"
  by (induction r) (simp_all add: hexEncode_def hex_char_nibbles)

lemma digit_not_letter: "is_digit c \<Longrightarrow> \<not> is_hex_letter c"
  by (auto simp add: is_digit_def is_hex_letter_def Let_def)

lemma digits_no_lookahead: "list_all is_digit s \<Longrightarrow> \<not> lookahead_letter s"
  by (induction s) (auto simp add: digit_not_letter)

lemma hexEncode_nonempty: "r \<noteq> [] \<Longrightarrow> hexEncode r \<noteq> []"
  by (cases r) (simp_all add: hexEncode_def)

lemma lookahead_letter_nonempty: "lookahead_letter r \<Longrightarrow> r \<noteq> []"
  by (cases r) simp_all

lemma parseRevision_hexEncode:
  assumes "r \<noteq> []" and "list_all is_hex_char r" and "revision features = Some (hexEncode r)"
  shows "parseRevision features = Some r"
proof -
  have "\<not> standard_notation (hexEncode r)"
    using assms(2) by (simp add: standard_notation_def digits_no_lookahead hexEncode_digits)
  moreover have "hexEncode r \<noteq> []"
    using assms(1) by (rule hexEncode_nonempty)
  moreover have "only_hex_chars (Buffer_from_hex (hexEncode r))"
    using assms(2) by (simp add: Buffer_from_hex_hexEncode only_hex_chars_def)
  ultimately show ?thesis
    using assms(3) by (simp add: parseRevision_def Buffer_from_hex_hexEncode)
qed

text \<open>
  Claim C8. Let every character of \<open>r\<close> be a hex digit (a digit, or a letter a to f in
  either case) and let \<open>r\<close> hold at least one such letter. If the device reports the hex
  encoding of the bytes of \<open>r\<close> as its revision, \<open>parseRevision\<close> returns \<open>r\<close>.
\<close>

theorem parseRevision_round_trip:
  assumes "list_all is_hex_char r" and "list_ex is_hex_letter r"
    and "revision features = Some (hexEncode r)"
  shows "parseRevision features = Some r"
proof -
  from assms(2) have "r \<noteq> []"
    by (cases r) simp_all
  then show ?thesis
    using assms(1,3) by (rule parseRevision_hexEncode)
qed

theorem parseRevision_round_trip_witness:
  "hexEncode ''df0963ec'' = ''6466303936336563'' \<and>
   parseRevision (device_revision ''6466303936336563'') = Some ''df0963ec''"
proof -
  have h: "list_all is_hex_char ''df0963ec''" "list_ex is_hex_letter ''df0963ec''"
    "hexEncode ''df0963ec'' = ''6466303936336563''"
    by code_simp+
  have r: "revision (device_revision ''6466303936336563'') = Some (hexEncode ''df0963ec'')"
    by (simp only: h(3) device_revision_def Features.simps)
  from parseRevision_round_trip [OF h(1,2) r] h(3) show ?thesis
    by simp
qed

section \<open>Properties of \<open>gatherWitnessPaths\<close>\<close>

lemma read_nat_snoc: "read_nat (s @ [c]) = 10 * read_nat s + ((of_char c :: nat) - 48)"
  by (simp add: read_nat_def)

lemma of_char_digit_char: "d < 10 \<Longrightarrow> (of_char (digit_char d) :: nat) = 48 + d"
  by (simp add: digit_char_def)

lemma read_nat_show_nat: "read_nat (show_nat n) = n"
proof (induction n rule: show_nat.induct)
  case (1 n)
  show ?case
  proof (cases "n < 10")
    case True
    then have "show_nat n = [digit_char n]"
      by (simp add: show_nat.simps [of n])
    then show ?thesis
      using True by (simp add: read_nat_def of_char_digit_char)
  next
    case False
    then have "show_nat n = show_nat (n div 10) @ [digit_char (n mod 10)]"
      by (simp add: show_nat.simps [of n])
    then show ?thesis
      using False "1.IH" by (simp add: read_nat_snoc of_char_digit_char)
  qed
qed

lemma show_nat_inj: "show_nat m = show_nat n \<Longrightarrow> m = n"
  by (metis read_nat_show_nat)

lemma is_digit_digit_char: "d < 10 \<Longrightarrow> is_digit (digit_char d)"
  by (simp add: is_digit_def of_char_digit_char)

lemma show_nat_digits: "list_all is_digit (show_nat n)"
proof (induction n rule: show_nat.induct)
  case (1 n)
  show ?case
  proof (cases "n < 10")
    case True
    then show ?thesis
      by (simp add: show_nat.simps [of n] is_digit_digit_char)
  next
    case False
    then show ?thesis
      using "1.IH" by (simp add: show_nat.simps [of n] is_digit_digit_char)
  qed
qed

lemma show_nat_nonempty: "show_nat n \<noteq> []"
  by (simp add: show_nat.simps [of n])

lemma digit_not_comma: "is_digit c \<Longrightarrow> c \<noteq> CHR '',''"
  by (auto simp add: is_digit_def)

lemma show_nat_no_comma: "CHR '','' \<notin> set (show_nat n)"
  using show_nat_digits [of n] digit_not_comma by (auto simp add: list_all_iff)

lemma comma_split:
  "CHR '','' \<notin> set x \<Longrightarrow> CHR '','' \<notin> set y \<Longrightarrow> x @ CHR '','' # a = y @ CHR '','' # b \<Longrightarrow>
     x = y \<and> a = b"
proof (induction x arbitrary: y)
  case Nil
  then show ?case by (cases y) auto
next
  case (Cons c x)
  then show ?case by (cases y) auto
qed

lemma join_commas_nonempty: "xs \<noteq> [] \<Longrightarrow> \<forall>x \<in> set xs. field x \<Longrightarrow> join_commas xs \<noteq> []"
  by (induction xs rule: join_commas.induct) (auto simp add: field_def)

lemma join_commas_inj:
  "\<forall>x \<in> set xs. field x \<Longrightarrow> \<forall>y \<in> set ys. field y \<Longrightarrow> join_commas xs = join_commas ys \<Longrightarrow>
     xs = ys"
proof (induction xs arbitrary: ys rule: join_commas.induct)
  case 1
  then show ?case
    using join_commas_nonempty [of ys] by auto
next
  case (2 x)
  show ?case
  proof (cases ys rule: join_commas.cases)
    case 1
    with 2 show ?thesis by (simp add: field_def)
  next
    case (2 y)
    with "2.prems" show ?thesis by simp
  next
    case (3 y y' ys')
    with "2.prems" have "x = y @ CHR '','' # join_commas (y' # ys')"
      by simp
    with "2.prems"(1) show ?thesis by (simp add: field_def)
  qed
next
  case (3 x x' xs)
  show ?case
  proof (cases ys rule: join_commas.cases)
    case 1
    with "3.prems" show ?thesis by (simp add: field_def)
  next
    case (2 y)
    with "3.prems" have "y = x @ CHR '','' # join_commas (x' # xs)"
      by simp
    with "3.prems"(2) 2 show ?thesis by (simp add: field_def)
  next
    case c: (3 y y' ys')
    with "3.prems" have "x @ CHR '','' # join_commas (x' # xs) = y @ CHR '','' # join_commas (y' # ys')"
      by simp
    moreover have "CHR '','' \<notin> set x" "CHR '','' \<notin> set y"
      using "3.prems" c by (simp_all add: field_def)
    ultimately have e: "x = y" "join_commas (x' # xs) = join_commas (y' # ys')"
      using comma_split by blast+
    have "x' # xs = y' # ys'"
      using "3.prems" c e(2) by (intro "3.IH") simp_all
    with e(1) c show ?thesis by simp
  qed
qed

lemma JSON_stringify_inj: "JSON_stringify p = JSON_stringify q \<Longrightarrow> p = q"
proof (cases p; cases q)
  fix a b
  assume pq: "p = Some a" "q = Some b" and e: "JSON_stringify p = JSON_stringify q"
  then have "join_commas (map show_nat a) = join_commas (map show_nat b)"
    by (simp add: JSON_stringify_def)
  moreover have "\<forall>x \<in> set (map show_nat a). field x" "\<forall>x \<in> set (map show_nat b). field x"
    by (auto simp add: field_def show_nat_nonempty show_nat_no_comma)
  ultimately have "map show_nat a = map show_nat b"
    by (rule join_commas_inj [rotated 2])
  then have "a = b"
    using show_nat_inj by (metis inj_onI list.inj_map_strong)
  with pq show "p = q" by simp
qed (simp_all add: JSON_stringify_def)

lemma keyed_Nil: "keyed []"
  by (simp add: keyed_def)

lemma values_insert_path:
  "keyed wp \<Longrightarrow>
     map snd (insert_path p wp) = (if p \<in> set (map snd wp) then map snd wp else map snd wp @ [p])"
proof (induction wp)
  case Nil
  then show ?case by (simp add: insert_path_def)
next
  case (Cons e wp)
  have k: "fst e = JSON_stringify (snd e)" and kw: "keyed wp"
    using Cons.prems by (simp_all add: keyed_def)
  have ih: "map snd (assoc_set (JSON_stringify p) p wp) =
      (if p \<in> set (map snd wp) then map snd wp else map snd wp @ [p])"
    using Cons.IH [OF kw] by (simp add: insert_path_def)
  show ?case
  proof (cases "snd e = p")
    case True
    then show ?thesis
      using k by (simp add: insert_path_def)
  next
    case False
    then have "fst e \<noteq> JSON_stringify p"
      using k JSON_stringify_inj by auto
    then show ?thesis
      using False ih by (simp add: insert_path_def)
  qed
qed

lemma set_assoc_set: "set (assoc_set k v al) \<subseteq> insert (k, v) (set al)"
  by (induction al) auto

lemma keyed_insert_path: "keyed wp \<Longrightarrow> keyed (insert_path p wp)"
  using set_assoc_set [of "JSON_stringify p" p wp]
  by (auto simp add: insert_path_def keyed_def)

lemma fold_insert_path:
  "keyed wp \<Longrightarrow>
     keyed (fold insert_path ps wp) \<and>
     map snd (fold insert_path ps wp) =
       fold (\<lambda>x acc. if x \<in> set acc then acc else acc @ [x]) ps (map snd wp)"
proof (induction ps arbitrary: wp)
  case Nil
  then show ?case by simp
next
  case (Cons p ps)
  have "keyed (insert_path p wp)"
    using Cons.prems by (rule keyed_insert_path)
  from Cons.IH [OF this] show ?case
    using Cons.prems by (simp add: values_insert_path)
qed

lemma fold_input_cb: "fold input_cb inputs wp = fold insert_path (input_paths inputs) wp"
  by (induction inputs arbitrary: wp) (simp_all add: input_cb_def input_paths_def)

lemma fold_owner_cb:
  "fold owner_cb owners wp =
     fold insert_path (filter (\<lambda>p. p \<noteq> None) (map staking_key_path owners)) wp"
  by (induction owners arbitrary: wp) (simp_all add: owner_cb_def)

lemma certificate_cb_eq:
  "certificate_cb c wp = fold insert_path (declared_paths c @ owner_paths c) wp"
  by (simp add: certificate_cb_def declared_paths_def owner_paths_def fold_owner_cb)

lemma fold_certificate_cb:
  "fold certificate_cb certs wp =
     fold insert_path (concat (map (\<lambda>c. declared_paths c @ owner_paths c) certs)) wp"
  by (induction certs arbitrary: wp) (simp_all add: certificate_cb_eq)

lemma fold_withdrawal_cb:
  "fold withdrawal_cb ws wp = fold insert_path (map withdrawal_path ws) wp"
  by (induction ws arbitrary: wp) (simp_all add: withdrawal_cb_def)

lemma witnessPaths_eq:
  "witnessPaths inputs certs ws = fold insert_path (insertion_sequence inputs certs ws) []"
  by (simp add: witnessPaths_def insertion_sequence_def fold_input_cb fold_certificate_cb
      fold_withdrawal_cb)

lemma gatherWitnessPaths_eq:
  "gatherWitnessPaths inputs certs ws = first_occurrences (insertion_sequence inputs certs ws)"
  using fold_insert_path [OF keyed_Nil, of "insertion_sequence inputs certs ws"]
  by (simp add: gatherWitnessPaths_def witnessPaths_eq first_occurrences_def)

lemma fold_first_occurrences:
  "distinct acc \<Longrightarrow>
     distinct (fold (\<lambda>x acc. if x \<in> set acc then acc else acc @ [x]) xs acc) \<and>
     set (fold (\<lambda>x acc. if x \<in> set acc then acc else acc @ [x]) xs acc) = set acc \<union> set xs"
  by (induction xs arbitrary: acc) auto

lemma distinct_first_occurrences: "distinct (first_occurrences xs)"
  using fold_first_occurrences [of "[]" xs] by (simp add: first_occurrences_def)

lemma set_first_occurrences: "set (first_occurrences xs) = set xs"
  using fold_first_occurrences [of "[]" xs] by (simp add: first_occurrences_def)



text \<open>
  Claim C9, as amended. The result of \<open>gatherWitnessPaths\<close> holds every inserted path
  once, at the place of its first insertion; two paths have the same key exactly when they
  are equal. The sequence of insertions is: the paths of the inputs that have one; then,
  certificate by certificate in the order of the list, the declared path of the
  certificate when its type is stake delegation or stake deregistration and the path is
  there, followed at once by the staking-key paths of the pool owners of that same
  certificate; then the path of every withdrawal.
\<close>

theorem gatherWitnessPaths_order:
  "gatherWitnessPaths inputs certs withdrawals =
     first_occurrences (insertion_sequence inputs certs withdrawals) \<and>
   distinct (gatherWitnessPaths inputs certs withdrawals) \<and>
   set (gatherWitnessPaths inputs certs withdrawals) =
     set (insertion_sequence inputs certs withdrawals) \<and>
   (\<forall>p q. JSON_stringify p = JSON_stringify q \<longleftrightarrow> p = q)"
proof -
  have "\<forall>p q. JSON_stringify p = JSON_stringify q \<longleftrightarrow> p = q"
    using JSON_stringify_inj by blast
  then show ?thesis
    by (simp add: gatherWitnessPaths_eq distinct_first_occurrences set_first_occurrences)
qed

theorem gatherWitnessPaths_order_witness:
  "gatherWitnessPaths
     [\<lparr>input_path = Some payment_path\<rparr>, \<lparr>input_path = None\<rparr>, \<lparr>input_path = Some payment_path\<rparr>]
     [cert_registration, cert_delegation]
     [\<lparr>withdrawal_path = Some staking_path\<rparr>] =
   [Some payment_path, Some staking_path]"
proof -
  have "first_occurrences (insertion_sequence
     [\<lparr>input_path = Some payment_path\<rparr>, \<lparr>input_path = None\<rparr>, \<lparr>input_path = Some payment_path\<rparr>]
     [cert_registration, cert_delegation]
     [\<lparr>withdrawal_path = Some staking_path\<rparr>]) =
   [Some payment_path, Some staking_path]"
    by code_simp
  with gatherWitnessPaths_order [of
     "[\<lparr>input_path = Some payment_path\<rparr>, \<lparr>input_path = None\<rparr>, \<lparr>input_path = Some payment_path\<rparr>]"
     "[cert_registration, cert_delegation]"
     "[\<lparr>withdrawal_path = Some staking_path\<rparr>]"]
  show ?thesis
    by (simp only:)
qed

text \<open>
  The claim as it was stated puts the declared paths of all certificates before the paths
  of all pool owners. With a pool registration followed by a stake delegation the program
  returns the path of the pool owner first, and the order of the claim would be the
  reverse.
\<close>

theorem certificate_order_counterexample:
  "gatherWitnessPaths [] [cert_pool_registration, cert_delegation] [] =
     [Some owner_path, Some staking_path] \<and>
   first_occurrences (insertion_sequence_spec [] [cert_pool_registration, cert_delegation] []) =
     [Some staking_path, Some owner_path] \<and>
   Some owner_path \<noteq> Some staking_path"
  by code_simp



end
